theory Spec2Isabelle
  imports Complex_Main
begin

text \<open>
  The instrumentation of the \<open>mongodb\<close> driver: the installation entry point
  \<open>module.exports\<close>, the handlers \<open>onStart\<close> and \<open>onEnd\<close> of the driver's command
  monitoring events with the table \<open>activeSpans\<close>, and the wrapper
  \<open>wrappedCollectionApi\<close> that \<open>wrapCollectionApi\<close> puts around a collection method.
  The functions \<open>wrapDb\<close>, \<open>wrapCollection\<close>, \<open>wrapFind\<close> and \<open>wrapNext\<close>
  (lines 83-122), which only put the wrappers in place, are left out. Line numbers are
  those of the source file.
\<close>

section \<open>JavaScript values\<close>

text \<open>
  The instrumentation is dynamically typed. A value is one of the primitives, an object
  (its identity and its properties), a function of the driver or of the caller (opaque,
  known by its identity), or the closure that \<open>wrappedCollectionApi\<close> builds at lines
  156-159: \<open>function () { span.end(); return cb.apply(null, arguments) }\<close>, which
  captures the span and the caller's callback. Numbers are the real numbers: no NaN, no
  infinities, no rounding. Strings are lists of 8-bit characters.
\<close>

datatype jsval =
    JUndefined
  | JNull
  | JBool bool
  | JNum real
  | JStr string
  | JObj nat "(string \<times> jsval) list"
  | JFun nat
  | JEndThenCall nat jsval

text \<open>The \<open>typeof\<close> operator.\<close>

fun typeof :: "jsval \<Rightarrow> string" where
  "typeof JUndefined = ''undefined''"
| "typeof JNull = ''object''"
| "typeof (JBool b) = ''boolean''"
| "typeof (JNum n) = ''number''"
| "typeof (JStr s) = ''string''"
| "typeof (JObj i ps) = ''object''"
| "typeof (JFun f) = ''function''"
| "typeof (JEndThenCall r cb) = ''function''"

text \<open>Truthiness, as \<open>if (v)\<close>, \<open>!v\<close>, \<open>a || b\<close> and \<open>a && b\<close> read a value.\<close>

fun truthy :: "jsval \<Rightarrow> bool" where
  "truthy JUndefined = False"
| "truthy JNull = False"
| "truthy (JBool b) = b"
| "truthy (JNum n) = (n \<noteq> 0)"
| "truthy (JStr s) = (s \<noteq> [])"
| "truthy (JObj i ps) = True"
| "truthy (JFun f) = True"
| "truthy (JEndThenCall r cb) = True"

definition js_or :: "jsval \<Rightarrow> jsval \<Rightarrow> jsval" where
  "js_or a b = (if truthy a then a else b)"

text \<open>
  \<open>obj[key]\<close> for a string key. A missing property reads as \<open>undefined\<close>; so does any
  property of a primitive or a function here, since the keys this file reads
  (\<open>s\<close>, \<open>client\<close>, \<open>url\<close>) are on no built-in prototype. On \<open>undefined\<close> and
  \<open>null\<close> JavaScript throws a TypeError; \<open>_get\<close> reads a property only of a truthy
  value, so that case is never reached.
\<close>

fun get_prop :: "jsval \<Rightarrow> string \<Rightarrow> jsval" where
  "get_prop (JObj i ps) key = (case map_of ps key of None \<Rightarrow> JUndefined | Some v \<Rightarrow> v)"
| "get_prop v key = JUndefined"

section \<open>Strings: split and join\<close>

text \<open>\<open>String.prototype.split\<close> on a one-character separator.\<close>

fun split :: "char \<Rightarrow> string \<Rightarrow> string list" where
  "split c [] = [[]]"
| "split c (x # xs) =
     (if x = c then [] # split c xs
      else (let ps = split c xs in (x # hd ps) # tl ps))"

text \<open>\<open>Array.prototype.join\<close> on an array of strings.\<close>

fun join :: "string \<Rightarrow> string list \<Rightarrow> string" where
  "join sep [] = []"
| "join sep [x] = x"
| "join sep (x # y # ys) = x @ sep @ join sep (y # ys)"

text \<open>
  The helper \<open>_get\<close> (lines 39-48): follow a dotted path through an object, stopping at
  the first falsy value.
\<close>

lemma split_nonempty: "split c s \<noteq> []"
  by (induction s) (auto simp: Let_def)

lemma join_split: "join [c] (split c s) = s"
proof (induction s)
  case Nil
  show ?case by simp
next
  case (Cons x xs)
  obtain p ps where ps: "split c xs = p # ps"
    using split_nonempty [of c xs] by (cases "split c xs") auto
  show ?case
  proof (cases "x = c")
    case True
    with Cons ps show ?thesis by simp
  next
    case False
    with Cons ps show ?thesis by (cases ps) (auto simp: Let_def)
  qed
qed

lemma join_tl_shorter:
  assumes "ps \<noteq> []" and "join [c] ps \<noteq> []"
  shows "length (join [c] (tl ps)) < length (join [c] ps)"
proof (cases ps)
  case Nil
  with assms show ?thesis by simp
next
  case (Cons p qs)
  with assms show ?thesis by (cases qs) auto
qed

lemma split_tl_shorter:
  assumes "path \<noteq> []"
  shows "length (join [c] (tl (split c path))) < length path"
  using join_tl_shorter [of "split c path" c] assms
  by (simp add: split_nonempty join_split)

function underscore_get :: "jsval \<Rightarrow> string \<Rightarrow> jsval" where
  "underscore_get obj path =
     (if \<not> truthy obj \<or> path = [] then obj
      else (let parts = split (CHR ''.'') path;
                key = hd parts
            in underscore_get (get_prop obj key) (join ''.'' (tl parts))))"
  by pat_completeness auto
termination
  by (relation "measure (\<lambda>(obj, path). length path)") (auto simp: split_tl_shorter)

section \<open>The destination token pattern\<close>

text \<open>
  \<open>HOSTNAME_PORT_RE = /^(.+):(\d+)$/\<close> (line 17). \<open>.\<close> is any character but a line
  terminator, \<open>\d\<close> is an ASCII digit, and without the \<open>m\<close> flag \<open>$\<close> is the end of
  the input. The greedy \<open>(.+)\<close> is tried longest first and gives characters back one
  at a time; after it must come a colon and then digits up to the end.
  \<open>HOSTNAME_PORT_RE_exec\<close> returns the two captured groups, or \<open>None\<close> where
  \<open>exec\<close> returns \<open>null\<close>.
\<close>

definition line_terminator :: "char \<Rightarrow> bool" where
  "line_terminator c = (c = CHR 0x0A \<or> c = CHR 0x0D)"

definition digit :: "char \<Rightarrow> bool" where
  "digit c = (c \<in> set ''0123456789'')"

fun try_host :: "nat \<Rightarrow> string \<Rightarrow> (string \<times> string) option" where
  "try_host 0 s = None"
| "try_host (Suc n) s =
     (let h = take (Suc n) s; rest = drop (Suc n) s
      in if list_all (\<lambda>c. \<not> line_terminator c) h \<and> rest \<noteq> [] \<and> hd rest = CHR '':''
            \<and> tl rest \<noteq> [] \<and> list_all digit (tl rest)
         then Some (h, tl rest)
         else try_host n s)"

definition HOSTNAME_PORT_RE_exec :: "string \<Rightarrow> (string \<times> string) option" where
  "HOSTNAME_PORT_RE_exec s = try_host (length s) s"

section \<open>Spans and the tracing collaborator\<close>

text \<open>
  The span object belongs to the agent. The instrumentation holds references to spans, so
  the spans live in a heap (a list; a reference is an index) and every method takes the
  reference. \<open>timer_start\<close> is the field \<open>span._timer.start\<close> that \<open>onEnd\<close> reads;
  \<open>ends\<close> keeps the argument of every call of \<open>span.end\<close>, in order (\<open>None\<close> for a
  call without argument), so a span that was ended exactly once has one entry.
\<close>

record destination =
  host :: string
  port :: string

record db_context =
  ctx_type :: string
  ctx_instance :: string

record span =
  sp_name :: string
  sp_type :: string
  sp_subtype :: string
  sp_action :: string
  exitSpan :: bool
  timer_start :: real
  dbContext :: "db_context option"
  destinationContext :: "destination option"
  ends :: "real option list"

section \<open>Command monitoring events\<close>

text \<open>
  The events of the driver's command monitoring, with the fields the handlers read
  (the comment at lines 175-185 shows a \<open>CommandStartedEvent\<close>). \<open>command\<close> is the
  command document, as its list of properties. \<open>outcome\<close> stands for what tells a
  succeeded command from a failed one (the reply or the failure).
\<close>

record command_event =
  requestId :: jsval

record started_event = command_event +
  address :: jsval
  connectionId :: jsval
  databaseName :: string
  commandName :: string
  command :: "(string \<times> jsval) list"

record finished_event = command_event +
  duration :: real
  outcome :: jsval

section \<open>The state\<close>

datatype log_entry =
    Debug string "jsval list"
  | Trace string "jsval list"
  | Warn string "jsval list"
  | ConsoleLog started_event

text \<open>
  \<open>spans\<close> is the heap of spans, \<open>activeSpans\<close> the \<open>Map\<close> of line 59 (its keys
  compare as the values of \<open>jsval\<close> do), \<open>logged\<close> what went to \<open>agent.logger\<close> and
  \<open>console.log\<close>, and \<open>callbacks\<close> the calls made to functions of the caller, each
  with its arguments.
\<close>

record world =
  spans :: "span list"
  activeSpans :: "jsval \<rightharpoonup> nat"
  logged :: "log_entry list"
  callbacks :: "(nat \<times> jsval list) list"

definition logger_debug :: "string \<Rightarrow> jsval list \<Rightarrow> world \<Rightarrow> world" where
  "logger_debug fmt args w = w\<lparr>logged := logged w @ [Debug fmt args]\<rparr>"

definition logger_trace :: "string \<Rightarrow> jsval list \<Rightarrow> world \<Rightarrow> world" where
  "logger_trace fmt args w = w\<lparr>logged := logged w @ [Trace fmt args]\<rparr>"

definition logger_warn :: "string \<Rightarrow> jsval list \<Rightarrow> world \<Rightarrow> world" where
  "logger_warn fmt args w = w\<lparr>logged := logged w @ [Warn fmt args]\<rparr>"

definition console_log :: "started_event \<Rightarrow> world \<Rightarrow> world" where
  "console_log event w = w\<lparr>logged := logged w @ [ConsoleLog event]\<rparr>"

text \<open>
  Modelled from the spec: \<open>createSpan(name, kind, subtype, action, options{exitSpan})\<close>
  of the agent's instrumentation (section 6), which is not in this file. It returns a
  span or \<open>null\<close>. Whether it grants a span is the agent's decision (sampling, limits):
  the first argument \<open>g\<close> is that decision for this call, \<open>None\<close> for a refusal and
  \<open>Some t\<close> for a new span whose timer starts at \<open>t\<close>. A new span is not ended and
  has no context.
\<close>

definition createSpan ::
  "real option \<Rightarrow> string \<Rightarrow> string \<Rightarrow> string \<Rightarrow> string \<Rightarrow> bool \<Rightarrow> world \<Rightarrow> nat option \<times> world" where
  "createSpan g name type subtype action exit w =
     (case g of
        None \<Rightarrow> (None, w)
      | Some t \<Rightarrow>
          (Some (length (spans w)),
           w\<lparr>spans := spans w @
               [\<lparr>sp_name = name, sp_type = type, sp_subtype = subtype, sp_action = action,
                 exitSpan = exit, timer_start = t, dbContext = None,
                 destinationContext = None, ends = []\<rparr>]\<rparr>))"

text \<open>
  Modelled from the spec: the methods of a span (section 6), \<open>Span.setDbContext\<close>,
  \<open>Span.setDestinationContext\<close> and \<open>Span.end(optionalAbsoluteEndTimestamp)\<close>.
\<close>

definition update_span :: "nat \<Rightarrow> (span \<Rightarrow> span) \<Rightarrow> world \<Rightarrow> world" where
  "update_span r f w = w\<lparr>spans := (spans w)[r := f (spans w ! r)]\<rparr>"

definition setDbContext :: "nat \<Rightarrow> db_context \<Rightarrow> world \<Rightarrow> world" where
  "setDbContext r ctx w = update_span r (\<lambda>sp. sp\<lparr>dbContext := Some ctx\<rparr>) w"

definition setDestinationContext :: "nat \<Rightarrow> destination \<Rightarrow> world \<Rightarrow> world" where
  "setDestinationContext r d w = update_span r (\<lambda>sp. sp\<lparr>destinationContext := Some d\<rparr>) w"

definition span_end :: "nat \<Rightarrow> real option \<Rightarrow> world \<Rightarrow> world" where
  "span_end r t w = update_span r (\<lambda>sp. sp\<lparr>ends := ends sp @ [t]\<rparr>) w"

text \<open>
  Modelled from the spec: \<open>getDBDestination(host, port)\<close> of \<open>../context\<close>, which is
  not in this file; it builds the destination context \<open>{host, port}\<close> (section 6).
\<close>

definition getDBDestination :: "string \<Rightarrow> string \<Rightarrow> destination" where
  "getDBDestination h p = \<lparr>host = h, port = p\<rparr>"

section \<open>The event strategy: onStart, onEnd, collectionFor\<close>

text \<open>\<open>collectionFor\<close> (lines 224-227).\<close>

definition collectionFor :: "started_event \<Rightarrow> string" where
  "collectionFor event =
     (let collection = (case map_of (command event) (commandName event) of
                          None \<Rightarrow> JUndefined | Some v \<Rightarrow> v)
      in case collection of JStr c \<Rightarrow> c | _ \<Rightarrow> ''$cmd'')"

fun the_string :: "jsval \<Rightarrow> string" where
  "the_string (JStr s) = s"
| "the_string v = []"

text \<open>
  \<open>onStart\<close> (lines 174-215). \<open>the_string\<close> is applied only to a value whose
  \<open>typeof\<close> is \<open>string\<close>.
\<close>

definition onStart :: "real option \<Rightarrow> started_event \<Rightarrow> world \<Rightarrow> world" where
  "onStart g event w =
     (let name = join ''.'' [databaseName event, collectionFor event, commandName event];
          (span, w1) = createSpan g name ''db'' ''mongodb'' (commandName event) True w
      in case span of
           None \<Rightarrow> w1
         | Some r \<Rightarrow>
            (let w2 = w1\<lparr>activeSpans := (activeSpans w1)(requestId event \<mapsto> r)\<rparr>;
                 addr = js_or (address event) (connectionId event);
                 w3 = console_log event w2;
                 match = (if truthy addr \<and> typeof addr = ''string''
                          then HOSTNAME_PORT_RE_exec (the_string addr) else None);
                 w4 = (case match of
                         Some (m1, m2) \<Rightarrow> setDestinationContext r (getDBDestination m1 m2) w3
                       | None \<Rightarrow>
                           logger_trace
                             ''could not set destination context on mongodb span from address=%j''
                             [addr] w3)
             in setDbContext r \<lparr>ctx_type = ''mongodb'', ctx_instance = databaseName event\<rparr> w4))"

text \<open>\<open>onEnd\<close> (lines 217-222).\<close>

definition onEnd :: "finished_event \<Rightarrow> world \<Rightarrow> world" where
  "onEnd event w =
     (case activeSpans w (requestId event) of
        None \<Rightarrow> w
      | Some r \<Rightarrow>
          (let w1 = w\<lparr>activeSpans := (activeSpans w)(requestId event := None)\<rparr>
           in span_end r (Some (timer_start (spans w1 ! r) / 1000 + duration event)) w1))"

section \<open>Installation\<close>

text \<open>
  The listener that \<open>mongodb.instrument()\<close> returns is an event emitter: \<open>on\<close> adds a
  handler under an event name, and emitting an event calls the handlers of its name in
  the order they were added. The handlers this file registers are \<open>onStart\<close> and
  \<open>onEnd\<close>.
\<close>

datatype start_handler = OnStart

datatype end_handler = OnEnd

record listener =
  started :: "start_handler list"
  succeeded :: "end_handler list"
  failed :: "end_handler list"

datatype wrapper = WrapDb

text \<open>
  The driver module as the entry point sees it: the two properties it tests, the
  listener of \<open>instrument()\<close>, and the methods replaced by \<open>shimmer.wrap\<close>.
  Modelled from the spec: \<open>shimmer.wrap(object, name, wrapper)\<close> of \<open>../shimmer\<close>,
  which is not in this file, replaces the method by what the wrapper makes of it
  (section 4.4); \<open>wrapped\<close> keeps which method was given which wrapper.
\<close>

record mongodb =
  instrument :: jsval
  MongoClient :: jsval
  listeners :: listener
  wrapped :: "(string \<times> wrapper) list"

text \<open>
  \<open>module.exports\<close> (lines 50-80). \<open>satisfies\<close> is \<open>semver.satisfies\<close>, a function of
  the \<open>semver\<close> package.
\<close>

definition module_exports ::
  "(string \<Rightarrow> string \<Rightarrow> bool) \<Rightarrow> mongodb \<Rightarrow> world \<Rightarrow> string \<Rightarrow> bool \<Rightarrow> mongodb \<times> world" where
  "module_exports satisfies mongodb agent version enabled =
     (if \<not> enabled then (mongodb, agent)
      else if \<not> satisfies version ''>=3.3 <6.0'' then
        (mongodb,
         logger_debug
           ''mongodb version %s not instrumented (mongodb <3.3 is instrumented via mongodb-core)''
           [JStr version] agent)
      else
        (let w = agent\<lparr>activeSpans := Map.empty\<rparr>
         in if truthy (instrument mongodb) then
              (let l0 = listeners mongodb;
                   l1 = l0\<lparr>started := started l0 @ [OnStart]\<rparr>;
                   l2 = l1\<lparr>succeeded := succeeded l1 @ [OnEnd]\<rparr>;
                   l3 = l2\<lparr>failed := failed l2 @ [OnEnd]\<rparr>
               in (mongodb\<lparr>listeners := l3\<rparr>, w))
            else if truthy (MongoClient mongodb) then
              (mongodb\<lparr>wrapped := wrapped mongodb @ [(''MongoClient.prototype.db'', WrapDb)]\<rparr>, w)
            else
              (mongodb, logger_warn ''could not instrument mongodb@%s'' [JStr version] w)))"

text \<open>
  The notifications of the driver. A started command carries the agent's answer to the
  \<open>createSpan\<close> call its handler makes.
\<close>

datatype notification =
    CommandStarted "real option" started_event
  | CommandSucceeded finished_event
  | CommandFailed finished_event

fun call_start_handler :: "start_handler \<Rightarrow> real option \<Rightarrow> started_event \<Rightarrow> world \<Rightarrow> world" where
  "call_start_handler OnStart g event w = onStart g event w"

fun call_end_handler :: "end_handler \<Rightarrow> finished_event \<Rightarrow> world \<Rightarrow> world" where
  "call_end_handler OnEnd event w = onEnd event w"

fun emit :: "listener \<Rightarrow> notification \<Rightarrow> world \<Rightarrow> world" where
  "emit l (CommandStarted g event) w = foldl (\<lambda>w h. call_start_handler h g event w) w (started l)"
| "emit l (CommandSucceeded event) w = foldl (\<lambda>w h. call_end_handler h event w) w (succeeded l)"
| "emit l (CommandFailed event) w = foldl (\<lambda>w h. call_end_handler h event w) w (failed l)"

fun notification_id :: "notification \<Rightarrow> jsval" where
  "notification_id (CommandStarted g event) = requestId event"
| "notification_id (CommandSucceeded event) = requestId event"
| "notification_id (CommandFailed event) = requestId event"

definition run :: "listener \<Rightarrow> notification list \<Rightarrow> world \<Rightarrow> world" where
  "run l ns w = foldl (\<lambda>w n. emit l n w) w ns"

section \<open>The interception strategy: wrapCollectionApi\<close>

text \<open>
  What a call of the original operation does, as the wrapper can see it: it completes
  by throwing, by returning a value that is no promise, or by returning a promise, which
  is fulfilled, is rejected or stays pending for ever; and it calls the function it
  was given as last argument some number of times, each time with some arguments. The
  operation is a function from its receiver and arguments to such a behaviour.
\<close>

datatype settlement = Fulfilled jsval | Rejected jsval | Pending

datatype completion = Throws jsval | Returns jsval | ReturnsPromise settlement

record behaviour =
  calls_back :: "jsval list list"
  completes :: completion

text \<open>
  The collection handle \<open>this\<close>, with the fields the wrapper reads: \<open>this.s.db\<close>,
  \<open>this.s.namespace.db\<close> and \<open>this.s.namespace.collection\<close>.
\<close>

record collection_handle =
  s_db :: jsval
  s_namespace_db :: string
  s_namespace_collection :: string

text \<open>\<open>arguments[arguments.length - 1]\<close>: \<open>undefined\<close> when there is no argument.\<close>

definition last_argument :: "jsval list \<Rightarrow> jsval" where
  "last_argument args = (if args = [] then JUndefined else last args)"

text \<open>
  Calling a function value. The closure of lines 156-159 ends its span and then calls
  the callback it captured with the same arguments; a call of a function of the caller
  is recorded in \<open>callbacks\<close>.
\<close>

fun call_function :: "jsval \<Rightarrow> jsval list \<Rightarrow> world \<Rightarrow> world" where
  "call_function (JEndThenCall r cb) args w = call_function cb args (span_end r None w)"
| "call_function (JFun f) args w = w\<lparr>callbacks := callbacks w @ [(f, args)]\<rparr>"
| "call_function v args w = w"

text \<open>
  \<open>origApi.apply(this, arguments)\<close>: how the call completes, and the state once the
  operation has made its calls of the callback it was handed (whenever it makes them).
\<close>

definition apply_fn ::
  "(collection_handle \<Rightarrow> jsval list \<Rightarrow> behaviour) \<Rightarrow> collection_handle \<Rightarrow> jsval list \<Rightarrow> world
     \<Rightarrow> completion \<times> world" where
  "apply_fn origApi this args w =
     (let b = origApi this args
      in (completes b, foldl (\<lambda>w a. call_function (last_argument args) a w) w (calls_back b)))"

text \<open>
  What an \<open>await\<close> of a completed call gives, and what the promise of an async function
  that returns the call settles with: a throw is a rejection, a value that is no promise
  a fulfilment, and a promise is followed.
\<close>

fun settle :: "completion \<Rightarrow> settlement" where
  "settle (Throws e) = Rejected e"
| "settle (Returns v) = Fulfilled v"
| "settle (ReturnsPromise p) = p"

text \<open>
  \<open>wrappedCollectionApi\<close> (lines 126-172), an async function: a call of it returns a
  promise, and the state that comes with the promise is the state when it has settled
  and the callbacks were called. \<open>URL\<close> is the constructor of Node's \<open>url\<close> module,
  as the hostname and the port of the parsed address, \<open>None\<close> when it throws.
  \<open>g\<close> is the agent's answer to \<open>createSpan\<close>.
\<close>

definition wrappedCollectionApi ::
  "(jsval \<Rightarrow> (string \<times> string) option) \<Rightarrow> (collection_handle \<Rightarrow> jsval list \<Rightarrow> behaviour) \<Rightarrow> string
     \<Rightarrow> real option \<Rightarrow> collection_handle \<Rightarrow> jsval list \<Rightarrow> world \<Rightarrow> completion \<times> world" where
  "wrappedCollectionApi URL origApi apiName g this arguments w =
     (let (p, w') =
        (let name = s_namespace_db this @ ''.'' @ s_namespace_collection this @ ''.'' @ apiName;
             (span, w1) = createSpan g name ''db'' ''mongodb'' apiName True w
         in case span of
              None \<Rightarrow> (let (c, w2) = apply_fn origApi this arguments w1 in (settle c, w2))
            | Some r \<Rightarrow>
               (let w2 = setDbContext r
                           \<lparr>ctx_type = ''mongodb'', ctx_instance = s_namespace_db this\<rparr> w1;
                    addr = underscore_get (s_db this) ''s.client.s.url'';
                    dest = (if truthy addr
                            then (case URL addr of
                                    None \<Rightarrow> None
                                  | Some (h, p) \<Rightarrow> Some (getDBDestination h p))
                            else None);
                    w3 = (case dest of
                            Some d \<Rightarrow> setDestinationContext r d w2
                          | None \<Rightarrow>
                              logger_trace
                                ''could not set destination context on mongodb span from address=%j''
                                [addr] w2);
                    cb = last_argument arguments
                in if typeof cb = ''function'' then
                     (let (c, w4) = apply_fn origApi this
                                      (arguments[length arguments - 1 := JEndThenCall r cb]) w3
                      in (settle c, w4))
                   else
                     (let (c, w4) = apply_fn origApi this arguments w3
                      in case settle c of
                           Fulfilled res \<Rightarrow> (Fulfilled res, span_end r None w4)
                         | Rejected err \<Rightarrow> (Rejected err, span_end r None w4)
                         | Pending \<Rightarrow> (Pending, w4))))
      in (ReturnsPromise p, w'))"

section \<open>Example inputs\<close>

text \<open>
  Modelled from the spec: the version gate's range check (section 4.1, a lower-inclusive
  and upper-exclusive range), for versions written \<open>major.minor.patch\<close> and the one
  range the entry point asks about. It stands for \<open>semver.satisfies\<close> in the examples;
  the theorems hold for any function in its place.
\<close>

definition number_of :: "string \<Rightarrow> nat option" where
  "number_of ds =
     (if ds \<noteq> [] \<and> list_all digit ds
      then Some (foldl (\<lambda>n c. 10 * n + (of_char c - 48)) 0 ds) else None)"

definition semver_satisfies :: "string \<Rightarrow> string \<Rightarrow> bool" where
  "semver_satisfies version rng =
     (rng = ''>=3.3 <6.0'' \<and>
      (case map number_of (split (CHR ''.'') version) of
         [Some major, Some minor, Some patch] \<Rightarrow>
           (3 < major \<or> (major = 3 \<and> 3 \<le> minor)) \<and> major < 6
       | _ \<Rightarrow> False))"

definition initial_world :: world where
  "initial_world = \<lparr>spans = [], activeSpans = Map.empty, logged = [], callbacks = []\<rparr>"

text \<open>A driver that has \<open>instrument\<close> (mongodb 3.x), with no listener yet.\<close>

definition example_mongodb :: mongodb where
  "example_mongodb =
     \<lparr>instrument = JFun 0, MongoClient = JFun 1,
      listeners = \<lparr>started = [], succeeded = [], failed = []\<rparr>, wrapped = []\<rparr>"

text \<open>The event of the comment at lines 178-185, and a second command in flight.\<close>

definition example_started :: started_event where
  "example_started =
     \<lparr>requestId = JNum 1, address = JStr ''127.0.0.1:27017'', connectionId = JNum 1,
      databaseName = ''test'', commandName = ''insert'',
      command = [(''insert'', JStr ''cats''), (''documents'', JObj 2 [])]\<rparr>"

definition example_other :: started_event where
  "example_other =
     \<lparr>requestId = JNum 2, address = JStr ''not-an-address'', connectionId = JNum 1,
      databaseName = ''admin'', commandName = ''ping'', command = [(''ping'', JNum 1)]\<rparr>"

definition example_finished :: finished_event where
  "example_finished = \<lparr>requestId = JNum 1, duration = 12, outcome = JObj 3 [(''ok'', JNum 1)]\<rparr>"

text \<open>
  A collection handle, and two operations: one that throws as soon as it is called
  (as the driver does on an argument it refuses), and one in callback style, which
  calls the callback once and returns \<open>undefined\<close>.
\<close>

definition example_collection :: collection_handle where
  "example_collection =
     \<lparr>s_db = JObj 4 [(''s'', JObj 5 [(''client'', JObj 6 [(''s'', JObj 7
               [(''url'', JStr ''mongodb://localhost:27017'')])])])],
      s_namespace_db = ''test'', s_namespace_collection = ''cats''\<rparr>"

definition example_URL :: "jsval \<Rightarrow> (string \<times> string) option" where
  "example_URL a = (if a = JStr ''mongodb://localhost:27017'' then Some (''localhost'', ''27017'') else None)"

definition example_error :: jsval where
  "example_error = JObj 8 [(''message'', JStr ''Argument docs must be an array of documents'')]"

definition throwing_operation :: "collection_handle \<Rightarrow> jsval list \<Rightarrow> behaviour" where
  "throwing_operation this args = \<lparr>calls_back = [], completes = Throws example_error\<rparr>"

definition callback_operation :: "collection_handle \<Rightarrow> jsval list \<Rightarrow> behaviour" where
  "callback_operation this args =
     \<lparr>calls_back = [[JNull, JObj 9 [(''acknowledged'', JBool True)]]], completes = Returns JUndefined\<rparr>"

section \<open>Invariants of the event strategy\<close>

text \<open>
  The listener after the registrations of lines 62-64 on a fresh emitter; every reference
  in the table is a span of the heap; and the span \<open>r\<close> of the command \<open>R\<close> is in
  flight: it is in the table under \<open>R\<close> and no other key, and was not ended.
\<close>

definition installed :: "listener \<Rightarrow> bool" where
  "installed l = (started l = [OnStart] \<and> succeeded l = [OnEnd] \<and> failed l = [OnEnd])"

definition table_ok :: "world \<Rightarrow> bool" where
  "table_ok w = (\<forall>k r. activeSpans w k = Some r \<longrightarrow> r < length (spans w))"

definition tracked :: "jsval \<Rightarrow> nat \<Rightarrow> real \<Rightarrow> world \<Rightarrow> bool" where
  "tracked R r t w =
     (table_ok w \<and> activeSpans w R = Some r \<and> (\<forall>k. k \<noteq> R \<longrightarrow> activeSpans w k \<noteq> Some r)
      \<and> timer_start (spans w ! r) = t \<and> ends (spans w ! r) = [])"

text \<open>The span that \<open>onStart\<close> leaves in the heap, and the one of \<open>wrappedCollectionApi\<close>
  before the operation is called.\<close>

definition started_span :: "real \<Rightarrow> started_event \<Rightarrow> span" where
  "started_span t event =
     \<lparr>sp_name = databaseName event @ ''.'' @ collectionFor event @ ''.'' @ commandName event,
      sp_type = ''db'', sp_subtype = ''mongodb'', sp_action = commandName event,
      exitSpan = True, timer_start = t,
      dbContext = Some \<lparr>ctx_type = ''mongodb'', ctx_instance = databaseName event\<rparr>,
      destinationContext =
        (let addr = js_or (address event) (connectionId event)
         in case (if truthy addr \<and> typeof addr = ''string''
                  then HOSTNAME_PORT_RE_exec (the_string addr) else None) of
              Some (m1, m2) \<Rightarrow> Some (getDBDestination m1 m2)
            | None \<Rightarrow> None),
      ends = []\<rparr>"

definition wrapped_span ::
  "(jsval \<Rightarrow> (string \<times> string) option) \<Rightarrow> string \<Rightarrow> real \<Rightarrow> collection_handle \<Rightarrow> span" where
  "wrapped_span URL apiName t this =
     \<lparr>sp_name = s_namespace_db this @ ''.'' @ s_namespace_collection this @ ''.'' @ apiName,
      sp_type = ''db'', sp_subtype = ''mongodb'', sp_action = apiName,
      exitSpan = True, timer_start = t,
      dbContext = Some \<lparr>ctx_type = ''mongodb'', ctx_instance = s_namespace_db this\<rparr>,
      destinationContext =
        (let addr = underscore_get (s_db this) ''s.client.s.url''
         in if truthy addr
            then (case URL addr of None \<Rightarrow> None | Some (h, p) \<Rightarrow> Some (getDBDestination h p))
            else None),
      ends = []\<rparr>"

text \<open>The state in which \<open>wrappedCollectionApi\<close>, granted a span, calls the operation.\<close>

definition before_call ::
  "(jsval \<Rightarrow> (string \<times> string) option) \<Rightarrow> string \<Rightarrow> real \<Rightarrow> collection_handle \<Rightarrow> world \<Rightarrow> world" where
  "before_call URL apiName t this w =
     w\<lparr>spans := spans w @ [wrapped_span URL apiName t this],
       logged := logged w @
         (if destinationContext (wrapped_span URL apiName t this) = None
          then [Trace ''could not set destination context on mongodb span from address=%j''
                 [underscore_get (s_db this) ''s.client.s.url'']]
          else [])\<rparr>"

section \<open>Facts about the state\<close>

lemma spans_update_span [simp]: "spans (update_span r f w) = (spans w)[r := f (spans w ! r)]"
  by (simp add: update_span_def)

lemma activeSpans_update_span [simp]: "activeSpans (update_span r f w) = activeSpans w"
  by (simp add: update_span_def)

lemma logged_update_span [simp]: "logged (update_span r f w) = logged w"
  by (simp add: update_span_def)

lemma callbacks_update_span [simp]: "callbacks (update_span r f w) = callbacks w"
  by (simp add: update_span_def)

subsection \<open>The pattern\<close>

lemma digit_not_colon: "digit c \<Longrightarrow> c \<noteq> CHR '':''"
  by (auto simp: digit_def)

lemma try_host_sound:
  "try_host n s = Some (h, p) \<Longrightarrow>
   s = h @ CHR '':'' # p \<and> h \<noteq> [] \<and> list_all (\<lambda>c. \<not> line_terminator c) h
   \<and> p \<noteq> [] \<and> list_all digit p"
proof (induction n)
  case 0
  then show ?case by simp
next
  case (Suc n)
  show ?case
  proof (cases "try_host n s = Some (h, p)")
    case True
    then show ?thesis by (rule Suc.IH)
  next
    case False
    with Suc.prems have c: "list_all (\<lambda>c. \<not> line_terminator c) (take (Suc n) s)"
      "drop (Suc n) s \<noteq> []" "hd (drop (Suc n) s) = CHR '':''" "tl (drop (Suc n) s) \<noteq> []"
      "list_all digit (tl (drop (Suc n) s))" "h = take (Suc n) s" "p = tl (drop (Suc n) s)"
      by (auto simp: Let_def split: if_splits)
    have "s = take (Suc n) s @ drop (Suc n) s" by simp
    also have "drop (Suc n) s = CHR '':'' # p" using c by (cases "drop (Suc n) s") auto
    finally have "s = h @ CHR '':'' # p" using c by simp
    moreover have "h \<noteq> []" using c by auto
    ultimately show ?thesis using c by simp
  qed
qed

lemma try_host_complete:
  assumes "h \<noteq> []" and "list_all (\<lambda>c. \<not> line_terminator c) h"
    and "p \<noteq> []" and "list_all digit p"
  shows "length h \<le> n \<Longrightarrow> try_host n (h @ CHR '':'' # p) = Some (h, p)"
proof (induction n)
  case 0
  with assms show ?case by simp
next
  case (Suc n)
  show ?case
  proof (cases "length h = Suc n")
    case True
    with assms show ?thesis by (simp add: Let_def)
  next
    case False
    with Suc.prems have le: "length h \<le> n" by simp
    define S where "S = h @ CHR '':'' # p"
    have "drop (Suc n) S = drop (n - length h) p"
      using le by (simp add: S_def Suc_diff_le)
    moreover have "drop (n - length h) p \<noteq> [] \<Longrightarrow> hd (drop (n - length h) p) \<noteq> CHR '':''"
      using assms(4) by (auto simp: hd_drop_conv_nth list_all_length digit_not_colon)
    ultimately have nc: "drop (Suc n) S = [] \<or> hd (drop (Suc n) S) \<noteq> CHR '':''" by auto
    have "try_host (Suc n) S = try_host n S"
      using nc by (auto simp: Let_def)
    then have "try_host (Suc n) (h @ CHR '':'' # p) = try_host n (h @ CHR '':'' # p)"
      by (simp only: S_def)
    with Suc.IH le show ?thesis by simp
  qed
qed

text \<open>
  The pattern matches exactly the strings that are a non-empty host without line
  terminator, a colon, and a non-empty run of digits; the host is everything before the
  last colon.
\<close>

lemma HOSTNAME_PORT_RE_exec_iff:
  "HOSTNAME_PORT_RE_exec s = Some (h, p) \<longleftrightarrow>
     s = h @ CHR '':'' # p \<and> h \<noteq> [] \<and> list_all (\<lambda>c. \<not> line_terminator c) h
     \<and> p \<noteq> [] \<and> list_all digit p"
  unfolding HOSTNAME_PORT_RE_exec_def
  using try_host_sound [of "length s" s h p] try_host_complete [of h p "length (h @ CHR '':'' # p)"]
  by auto

lemma no_line_terminator_iff:
  "list_all (\<lambda>c. \<not> line_terminator c) h \<longleftrightarrow> CHR 0x0A \<notin> set h \<and> CHR 0x0D \<notin> set h"
  by (auto simp: list_all_iff line_terminator_def)

lemma all_digits_iff: "list_all digit p \<longleftrightarrow> set p \<subseteq> set ''0123456789''"
  unfolding list_all_iff digit_def by blast

subsection \<open>onStart and onEnd\<close>

lemma onStart_refused: "onStart None event w = w"
  by (simp add: onStart_def createSpan_def)

lemma spans_onStart:
  "spans (onStart (Some t) event w) = spans w @ [started_span t event]"
  by (simp add: onStart_def createSpan_def started_span_def Let_def setDbContext_def
      setDestinationContext_def logger_trace_def console_log_def split: option.splits)

lemma activeSpans_onStart:
  "activeSpans (onStart (Some t) event w) = (activeSpans w)(requestId event \<mapsto> length (spans w))"
  by (simp add: onStart_def createSpan_def Let_def setDbContext_def
      setDestinationContext_def logger_trace_def console_log_def split: option.splits)

lemma logged_onStart:
  "logged (onStart (Some t) event w) =
     logged w @ ConsoleLog event #
       (if destinationContext (started_span t event) = None
        then [Trace ''could not set destination context on mongodb span from address=%j''
               [js_or (address event) (connectionId event)]]
        else [])"
  by (simp add: onStart_def createSpan_def started_span_def Let_def setDbContext_def
      setDestinationContext_def logger_trace_def console_log_def split: option.splits)

lemma onEnd_absent: "activeSpans w (requestId event) = None \<Longrightarrow> onEnd event w = w"
  by (simp add: onEnd_def)

lemma spans_onEnd:
  "activeSpans w (requestId event) = Some r \<Longrightarrow>
   spans (onEnd event w) =
     (spans w)[r := (spans w ! r)\<lparr>ends := ends (spans w ! r) @
        [Some (timer_start (spans w ! r) / 1000 + duration event)]\<rparr>]"
  by (simp add: onEnd_def span_end_def)

lemma activeSpans_onEnd:
  "activeSpans (onEnd event w) = (activeSpans w)(requestId event := None)"
  by (auto simp: onEnd_def span_end_def split: option.splits)

lemma length_spans_onEnd: "length (spans (onEnd event w)) = length (spans w)"
  by (cases "activeSpans w (requestId event)") (simp_all add: onEnd_absent spans_onEnd)

lemma table_ok_onStart: "table_ok w \<Longrightarrow> table_ok (onStart g event w)"
proof (cases g)
  case None
  assume "table_ok w"
  with None show ?thesis by (simp add: onStart_refused)
next
  case (Some t)
  assume "table_ok w"
  with Some show ?thesis
    by (auto simp: table_ok_def spans_onStart activeSpans_onStart less_Suc_eq)
qed

lemma table_ok_onEnd: "table_ok w \<Longrightarrow> table_ok (onEnd event w)"
  by (auto simp: table_ok_def length_spans_onEnd activeSpans_onEnd split: if_splits)

lemma tracked_onStart_new:
  assumes "table_ok w"
  shows "tracked (requestId event) (length (spans w)) t (onStart (Some t) event w)"
  unfolding tracked_def
proof (intro conjI allI impI)
  show "table_ok (onStart (Some t) event w)" using assms by (rule table_ok_onStart)
  show "activeSpans (onStart (Some t) event w) (requestId event) = Some (length (spans w))"
    by (simp add: activeSpans_onStart)
  show "timer_start (spans (onStart (Some t) event w) ! length (spans w)) = t"
    by (simp add: spans_onStart started_span_def)
  show "ends (spans (onStart (Some t) event w) ! length (spans w)) = []"
    by (simp add: spans_onStart started_span_def)
next
  fix k assume "k \<noteq> requestId event"
  then show "activeSpans (onStart (Some t) event w) k \<noteq> Some (length (spans w))"
    using assms by (auto simp: activeSpans_onStart table_ok_def)
qed

lemma tracked_onStart_other:
  assumes "tracked R r t w" and "requestId event \<noteq> R"
  shows "tracked R r t (onStart g event w)"
proof (cases g)
  case None
  with assms show ?thesis by (simp add: onStart_refused)
next
  case (Some u)
  from assms have r: "r < length (spans w)" by (auto simp: tracked_def table_ok_def)
  from assms have ok: "table_ok (onStart g event w)" by (simp add: tracked_def table_ok_onStart)
  with assms r Some show ?thesis
    by (auto simp: tracked_def activeSpans_onStart spans_onStart nth_append)
qed

lemma tracked_onEnd_other:
  assumes "tracked R r t w" and "requestId event \<noteq> R"
  shows "tracked R r t (onEnd event w)"
proof (cases "activeSpans w (requestId event)")
  case None
  with assms show ?thesis by (simp add: onEnd_absent)
next
  case (Some q)
  from assms have ok: "table_ok (onEnd event w)" by (simp add: tracked_def table_ok_onEnd)
  from assms Some have "q \<noteq> r" by (auto simp: tracked_def)
  with assms Some ok show ?thesis
    by (auto simp: tracked_def activeSpans_onEnd spans_onEnd)
qed

subsection \<open>Installation and dispatch\<close>

lemma emit_installed:
  assumes "installed l"
  shows "emit l (CommandStarted g s) w = onStart g s w"
    and "emit l (CommandSucceeded e) w = onEnd e w"
    and "emit l (CommandFailed e) w = onEnd e w"
  using assms by (simp_all add: installed_def)

declare emit.simps [simp del]

lemma run_Cons: "run l (n # ns) w = run l ns (emit l n w)"
  by (simp add: run_def)

lemma table_ok_emit: "installed l \<Longrightarrow> table_ok w \<Longrightarrow> table_ok (emit l n w)"
  by (cases n) (simp_all add: emit_installed table_ok_onStart table_ok_onEnd)

lemma table_ok_run: "installed l \<Longrightarrow> table_ok w \<Longrightarrow> table_ok (run l ns w)"
  unfolding run_def by (induction ns arbitrary: w) (simp_all add: table_ok_emit)

lemma tracked_emit:
  "installed l \<Longrightarrow> tracked R r t w \<Longrightarrow> notification_id n \<noteq> R \<Longrightarrow> tracked R r t (emit l n w)"
  by (cases n) (simp_all add: emit_installed tracked_onStart_other tracked_onEnd_other)

lemma tracked_run:
  "installed l \<Longrightarrow> tracked R r t w \<Longrightarrow> \<forall>n\<in>set ns. notification_id n \<noteq> R
   \<Longrightarrow> tracked R r t (run l ns w)"
  unfolding run_def by (induction ns arbitrary: w) (simp_all add: tracked_emit)

lemma module_exports_event_strategy:
  assumes "satisfies version ''>=3.3 <6.0''" and "truthy (instrument m)"
    and "listeners m = \<lparr>started = [], succeeded = [], failed = []\<rparr>"
  shows "module_exports satisfies m agent version True =
           (m\<lparr>listeners := \<lparr>started = [OnStart], succeeded = [OnEnd], failed = [OnEnd]\<rparr>\<rparr>,
            agent\<lparr>activeSpans := Map.empty\<rparr>)"
  using assms by (simp add: module_exports_def Let_def)

subsection \<open>wrappedCollectionApi\<close>

lemma call_function_not_callable: "typeof v \<noteq> ''function'' \<Longrightarrow> call_function v a w = w"
  by (cases v) simp_all

lemma foldl_not_callable:
  "typeof v \<noteq> ''function'' \<Longrightarrow> foldl (\<lambda>w a. call_function v a w) w as = w"
  by (induction as arbitrary: w) (simp_all add: call_function_not_callable)

lemma apply_fn_promise_style:
  "typeof (last_argument args) \<noteq> ''function'' \<Longrightarrow>
   apply_fn origApi this args w = (completes (origApi this args), w)"
  by (simp add: apply_fn_def Let_def foldl_not_callable)

lemma wrapped_granted:
  "wrappedCollectionApi URL origApi apiName (Some t) this args w =
     (let r = length (spans w);
          w3 = before_call URL apiName t this w;
          cb = last_argument args
      in if typeof cb = ''function'' then
           (case apply_fn origApi this (args[length args - 1 := JEndThenCall r cb]) w3 of
              (c, w4) \<Rightarrow> (ReturnsPromise (settle c), w4))
         else
           (case apply_fn origApi this args w3 of
              (c, w4) \<Rightarrow>
                (ReturnsPromise (settle c),
                 case settle c of Pending \<Rightarrow> w4 | _ \<Rightarrow> span_end r None w4)))"
  by (simp add: wrappedCollectionApi_def createSpan_def Let_def before_call_def
      setDbContext_def setDestinationContext_def logger_trace_def wrapped_span_def
      update_span_def split_beta
      del: underscore_get.simps
      split: option.split settlement.split)

text \<open>
  Promise style with a span: the promise settles as the operation does, and the span is
  ended once unless the operation's promise stays pending.
\<close>

lemma wrapped_promise_style:
  assumes "typeof (last_argument args) \<noteq> ''function''"
  shows "wrappedCollectionApi URL origApi apiName (Some t) this args w =
     (ReturnsPromise (settle (completes (origApi this args))),
      w\<lparr>spans := spans w @ [(wrapped_span URL apiName t this)
            \<lparr>ends := (case settle (completes (origApi this args)) of
                        Pending \<Rightarrow> [] | _ \<Rightarrow> [None])\<rparr>],
        logged := logged w @
          (if destinationContext (wrapped_span URL apiName t this) = None
           then [Trace ''could not set destination context on mongodb span from address=%j''
                  [underscore_get (s_db this) ''s.client.s.url'']]
           else [])\<rparr>)"
  using assms
  by (simp add: wrapped_granted Let_def apply_fn_promise_style before_call_def span_end_def
         wrapped_span_def
      del: underscore_get.simps split: settlement.splits)

lemma wrapped_refused:
  "wrappedCollectionApi URL origApi apiName None this args w =
     (case apply_fn origApi this args w of (c, w') \<Rightarrow> (ReturnsPromise (settle c), w'))"
  by (simp add: wrappedCollectionApi_def createSpan_def Let_def split: prod.splits)

section \<open>The claims\<close>

text \<open>
  Claim C1. Install on a driver that has \<open>instrument\<close>, and let any notifications
  \<open>pre\<close> pass. Then a started notification for the command \<open>R\<close> that is granted a
  span, any notifications \<open>mid\<close> of other commands, and one end notification for \<open>R\<close>
  (succeeded or failed): the start puts one new span \<open>r\<close> in the heap, which stays
  open until the end notification; that notification changes the heap at \<open>r\<close> only and
  leaves \<open>r\<close> with exactly one call of \<open>end\<close>, whose argument is the start of the
  span's timer divided by 1000 (the span's start, in the unit \<open>end\<close> takes) plus the
  duration of the notification; and afterwards the table has no entry for \<open>R\<close>.
\<close>

theorem start_end_pair_closes_span:
  assumes range: "satisfies version ''>=3.3 <6.0''"
    and instr: "truthy (instrument m)"
    and fresh: "listeners m = \<lparr>started = [], succeeded = [], failed = []\<rparr>"
    and same: "requestId e = requestId s"
    and others: "\<forall>n\<in>set mid. notification_id n \<noteq> requestId s"
    and fin: "fin = CommandSucceeded e \<or> fin = CommandFailed e"
  shows "let (m', w0) = module_exports satisfies m agent version True;
             l = listeners m';
             wa = run l pre w0;
             r = length (spans wa);
             wb = run l (CommandStarted (Some t) s # mid) wa;
             w' = emit l fin wb
         in r < length (spans wb) \<and> timer_start (spans wb ! r) = t \<and> ends (spans wb ! r) = []
            \<and> spans w' = (spans wb)[r := (spans wb ! r)\<lparr>ends := [Some (t / 1000 + duration e)]\<rparr>]
            \<and> activeSpans w' (requestId s) = None"
proof -
  define l where "l = \<lparr>started = [OnStart], succeeded = [OnEnd], failed = [OnEnd]\<rparr>"
  define w0 where "w0 = agent\<lparr>activeSpans := Map.empty\<rparr>"
  define wa where "wa = run l pre w0"
  define r where "r = length (spans wa)"
  define wb where "wb = run l (CommandStarted (Some t) s # mid) wa"
  have inst: "module_exports satisfies m agent version True = (m\<lparr>listeners := l\<rparr>, w0)"
    unfolding l_def w0_def by (rule module_exports_event_strategy
          [where satisfies = satisfies and version = version, OF range instr fresh])
  have l: "installed l" by (simp add: installed_def l_def)
  have "table_ok w0" by (simp add: table_ok_def w0_def)
  then have "table_ok wa" unfolding wa_def using l by (simp add: table_ok_run)
  then have "tracked (requestId s) r t (onStart (Some t) s wa)"
    unfolding r_def by (rule tracked_onStart_new)
  then have tr: "tracked (requestId s) r t wb"
    unfolding wb_def run_Cons using l others by (simp add: emit_installed tracked_run)
  then have key: "activeSpans wb (requestId e) = Some r" using same by (simp add: tracked_def)
  have fin': "emit l fin wb = onEnd e wb" using fin l by (auto simp: emit_installed)
  have "r < length (spans wb)" using tr by (auto simp: tracked_def table_ok_def)
  moreover have "timer_start (spans wb ! r) = t" "ends (spans wb ! r) = []"
    using tr by (simp_all add: tracked_def)
  moreover have "spans (emit l fin wb) =
      (spans wb)[r := (spans wb ! r)\<lparr>ends := [Some (t / 1000 + duration e)]\<rparr>]"
    using tr by (simp add: fin' spans_onEnd [OF key] tracked_def)
  moreover have "activeSpans (emit l fin wb) (requestId s) = None"
    by (simp add: fin' activeSpans_onEnd same)
  ultimately show ?thesis
    by (simp add: inst Let_def wa_def [symmetric] r_def [symmetric] wb_def [symmetric])
qed

theorem start_end_pair_closes_span_witness:
  "let (m', w0) = module_exports semver_satisfies example_mongodb initial_world ''3.6.3'' True;
       l = listeners m';
       wa = run l [] w0;
       r = length (spans wa);
       wb = run l [CommandStarted (Some 5000000) example_started,
                   CommandStarted (Some 7000000) example_other] wa;
       w' = emit l (CommandSucceeded example_finished) wb
   in r < length (spans wb) \<and> timer_start (spans wb ! r) = 5000000 \<and> ends (spans wb ! r) = []
      \<and> spans w' = (spans wb)[r := (spans wb ! r)\<lparr>ends := [Some (5000000 / 1000 + duration example_finished)]\<rparr>]
      \<and> activeSpans w' (requestId example_started) = None"
proof -
  have range: "semver_satisfies ''3.6.3'' ''>=3.3 <6.0''" by code_simp
  have instr: "truthy (instrument example_mongodb)" by (simp add: example_mongodb_def)
  have fresh: "listeners example_mongodb = \<lparr>started = [], succeeded = [], failed = []\<rparr>"
    by (simp add: example_mongodb_def)
  have same: "requestId example_finished = requestId example_started"
    by (simp add: example_finished_def example_started_def)
  have others: "\<forall>n\<in>set [CommandStarted (Some 7000000) example_other].
      notification_id n \<noteq> requestId example_started"
    by (simp add: example_other_def example_started_def)
  have fin: "CommandSucceeded example_finished = CommandSucceeded example_finished
      \<or> CommandSucceeded example_finished = CommandFailed example_finished" by simp
  show ?thesis
    by (rule start_end_pair_closes_span
          [where satisfies = semver_satisfies and version = "''3.6.3''",
            OF range instr fresh same others fin])
qed

text \<open>The same run, evaluated: the span of the first command is ended at 5012.\<close>

lemma start_end_pair_example:
  "let (m', w0) = module_exports semver_satisfies example_mongodb initial_world ''3.6.3'' True;
       l = listeners m';
       wb = run l [CommandStarted (Some 5000000) example_started,
                   CommandStarted (Some 7000000) example_other] w0;
       w' = emit l (CommandSucceeded example_finished) wb
   in map ends (spans w') = [[Some 5012], []] \<and> dom (activeSpans w') = {JNum 2}"
  by (simp add: module_exports_event_strategy semver_satisfies_def example_mongodb_def initial_world_def
     run_def emit_installed installed_def example_started_def example_other_def example_finished_def
     spans_onStart activeSpans_onStart spans_onEnd activeSpans_onEnd started_span_def number_of_def digit_def)

subsection \<open>Callback style\<close>

lemma ends_wrapped_span: "ends (wrapped_span URL apiName t this) = []"
  by (simp add: wrapped_span_def)

lemma foldl_end_then_call:
  "r < length (spans w) \<Longrightarrow>
   foldl (\<lambda>w a. call_function (JEndThenCall r (JFun f)) a w) w as =
     w\<lparr>spans := (spans w)[r := (spans w ! r)\<lparr>ends := ends (spans w ! r) @ replicate (length as) None\<rparr>],
       callbacks := callbacks w @ map (Pair f) as\<rparr>"
proof (induction as arbitrary: w)
  case Nil
  then show ?case by simp
next
  case (Cons a as)
  define w1 where "w1 = call_function (JEndThenCall r (JFun f)) a w"
  have w1: "w1 = w\<lparr>spans := (spans w)[r := (spans w ! r)\<lparr>ends := ends (spans w ! r) @ [None]\<rparr>],
                   callbacks := callbacks w @ [(f, a)]\<rparr>"
    unfolding w1_def by (simp add: span_end_def update_span_def)
  have r1: "r < length (spans w1)" using Cons.prems by (simp add: w1)
  have "foldl (\<lambda>w a. call_function (JEndThenCall r (JFun f)) a w) w (a # as) =
        foldl (\<lambda>w a. call_function (JEndThenCall r (JFun f)) a w) w1 as"
    by (simp only: foldl_Cons w1_def)
  also have "\<dots> = w1\<lparr>spans := (spans w1)[r := (spans w1 ! r)
                        \<lparr>ends := ends (spans w1 ! r) @ replicate (length as) None\<rparr>],
                     callbacks := callbacks w1 @ map (Pair f) as\<rparr>"
    by (rule Cons.IH [OF r1])
  also have "\<dots> = w\<lparr>spans := (spans w)[r := (spans w ! r)
                        \<lparr>ends := ends (spans w ! r) @ replicate (length (a # as)) None\<rparr>],
                    callbacks := callbacks w @ map (Pair f) (a # as)\<rparr>"
    using Cons.prems by (simp add: w1)
  finally show ?case .
qed

text \<open>
  Callback style with a span: the span is ended once for each call the operation makes of
  the callback it was handed, whatever way the call of the operation completes.
\<close>

lemma wrapped_callback_style:
  assumes "last_argument args = JFun f"
  shows "wrappedCollectionApi URL origApi apiName (Some t) this args w =
     (let b = origApi this (args[length args - 1 := JEndThenCall (length (spans w)) (JFun f)])
      in (ReturnsPromise (settle (completes b)),
          w\<lparr>spans := spans w @ [(wrapped_span URL apiName t this)
                \<lparr>ends := replicate (length (calls_back b)) None\<rparr>],
            logged := logged w @
              (if destinationContext (wrapped_span URL apiName t this) = None
               then [Trace ''could not set destination context on mongodb span from address=%j''
                      [underscore_get (s_db this) ''s.client.s.url'']]
               else []),
            callbacks := callbacks w @ map (Pair f) (calls_back b)\<rparr>))"
proof -
  have ne: "args \<noteq> []" using assms by (auto simp: last_argument_def split: if_splits)
  then have la: "last_argument (args[length args - 1 := v]) = v" for v
    by (simp add: last_argument_def last_list_update)
  define r where "r = length (spans w)"
  define args' where "args' = args[length args - 1 := JEndThenCall r (JFun f)]"
  define w3 where "w3 = before_call URL apiName t this w"
  have r: "r < length (spans w3)" by (simp add: r_def w3_def before_call_def)
  have "apply_fn origApi this args' w3 =
      (completes (origApi this args'),
       foldl (\<lambda>w a. call_function (JEndThenCall r (JFun f)) a w) w3 (calls_back (origApi this args')))"
    by (simp only: apply_fn_def Let_def args'_def la)
  also have "foldl (\<lambda>w a. call_function (JEndThenCall r (JFun f)) a w) w3
                (calls_back (origApi this args')) =
      w3\<lparr>spans := (spans w3)[r := (spans w3 ! r)
               \<lparr>ends := ends (spans w3 ! r) @ replicate (length (calls_back (origApi this args'))) None\<rparr>],
          callbacks := callbacks w3 @ map (Pair f) (calls_back (origApi this args'))\<rparr>"
    by (rule foldl_end_then_call [OF r])
  finally have ap: "apply_fn origApi this args' w3 =
      (completes (origApi this args'),
       w3\<lparr>spans := (spans w3)[r := (spans w3 ! r)
               \<lparr>ends := ends (spans w3 ! r) @ replicate (length (calls_back (origApi this args'))) None\<rparr>],
          callbacks := callbacks w3 @ map (Pair f) (calls_back (origApi this args'))\<rparr>)" .
  have call: "wrappedCollectionApi URL origApi apiName (Some t) this args w =
      (case apply_fn origApi this args' w3 of (c, w4) \<Rightarrow> (ReturnsPromise (settle c), w4))"
    unfolding args'_def w3_def r_def using assms
    by (simp add: wrapped_granted Let_def del: underscore_get.simps One_nat_def)
  have state: "w3\<lparr>spans := (spans w3)[r := (spans w3 ! r)
               \<lparr>ends := ends (spans w3 ! r) @ replicate (length (calls_back (origApi this args'))) None\<rparr>],
          callbacks := callbacks w3 @ map (Pair f) (calls_back (origApi this args'))\<rparr> =
      w\<lparr>spans := spans w @ [(wrapped_span URL apiName t this)
                \<lparr>ends := replicate (length (calls_back (origApi this args'))) None\<rparr>],
        logged := logged w @
          (if destinationContext (wrapped_span URL apiName t this) = None
           then [Trace ''could not set destination context on mongodb span from address=%j''
                  [underscore_get (s_db this) ''s.client.s.url'']]
           else []),
        callbacks := callbacks w @ map (Pair f) (calls_back (origApi this args'))\<rparr>"
    by (simp add: w3_def before_call_def r_def ends_wrapped_span del: underscore_get.simps)
  show ?thesis
    unfolding Let_def using call ap state by (simp only: args'_def r_def prod.case)
qed

text \<open>
  Claim C2 does not hold of the code in callback style when the operation throws as soon
  as it is called: the closure that ends the span is never called, and nothing else ends
  the span. Here a span is granted, the last argument is a callback, the operation
  throws; the promise of the wrapper is rejected with the error and the span, the only
  one of the heap, has no call of \<open>end\<close>. The promise path ends the span in this case.
\<close>

theorem callback_style_throw_leaves_span_open:
  "typeof (last_argument [JStr ''not an array'', JFun 11]) = ''function''
   \<and> wrappedCollectionApi example_URL throwing_operation ''insertMany'' (Some 5000000)
        example_collection [JStr ''not an array'', JFun 11] initial_world =
       (ReturnsPromise (Rejected example_error),
        initial_world\<lparr>spans :=
          [\<lparr>sp_name = ''test.cats.insertMany'', sp_type = ''db'', sp_subtype = ''mongodb'',
            sp_action = ''insertMany'', exitSpan = True, timer_start = 5000000,
            dbContext = Some \<lparr>ctx_type = ''mongodb'', ctx_instance = ''test''\<rparr>,
            destinationContext = Some \<lparr>host = ''localhost'', port = ''27017''\<rparr>,
            ends = []\<rparr>]\<rparr>)"
proof -
  have la: "last_argument [JStr ''not an array'', JFun 11] = JFun 11"
    by (simp add: last_argument_def)
  have get: "underscore_get (s_db example_collection) ''s.client.s.url''
      = JStr ''mongodb://localhost:27017''"
    by code_simp
  show ?thesis
    by (simp add: wrapped_callback_style [OF la] la throwing_operation_def wrapped_span_def get
        example_URL_def getDBDestination_def initial_world_def example_collection_def)
qed

text \<open>
  Claim C3. A promise-style call (the last argument is no function) whose underlying
  operation throws, by throwing when it is called or by returning a promise that is
  rejected: the promise the wrapper returns is rejected with the very error of the
  operation, whether a span was granted or not; and when a span was granted, in the
  state at that rejection the span of this call, the one new span of the heap, has
  exactly one call of \<open>end\<close>, without argument, and the older spans are as they were.
\<close>

theorem promise_style_throw_ends_span_once:
  assumes "typeof (last_argument args) \<noteq> ''function''"
    and "completes (origApi this args) = Throws err
         \<or> completes (origApi this args) = ReturnsPromise (Rejected err)"
  shows "fst (wrappedCollectionApi URL origApi apiName g this args w) = ReturnsPromise (Rejected err)
         \<and> (case wrappedCollectionApi URL origApi apiName (Some t) this args w of
              (res, w') \<Rightarrow>
                res = ReturnsPromise (Rejected err)
                \<and> length (spans w') = Suc (length (spans w))
                \<and> take (length (spans w)) (spans w') = spans w
                \<and> ends (spans w' ! length (spans w)) = [None])"
proof -
  have rej: "settle (completes (origApi this args)) = Rejected err"
    using assms(2) by auto
  have "fst (wrappedCollectionApi URL origApi apiName g this args w) = ReturnsPromise (Rejected err)"
  proof (cases g)
    case None
    then show ?thesis
      by (simp add: wrapped_refused apply_fn_promise_style [OF assms(1)] rej)
  next
    case (Some u)
    then show ?thesis
      by (simp add: wrapped_promise_style [OF assms(1)] rej)
  qed
  then show ?thesis
    by (simp add: wrapped_promise_style [OF assms(1)] rej)
qed

theorem promise_style_throw_ends_span_once_witness:
  "fst (wrappedCollectionApi example_URL throwing_operation ''insertMany'' None
          example_collection [JStr ''not an array''] initial_world)
     = ReturnsPromise (Rejected example_error)
   \<and> (case wrappedCollectionApi example_URL throwing_operation ''insertMany'' (Some 5000000)
            example_collection [JStr ''not an array''] initial_world of
       (res, w') \<Rightarrow>
         res = ReturnsPromise (Rejected example_error)
         \<and> length (spans w') = Suc (length (spans initial_world))
         \<and> take (length (spans initial_world)) (spans w') = spans initial_world
         \<and> ends (spans w' ! length (spans initial_world)) = [None])"
proof -
  have style: "typeof (last_argument [JStr ''not an array'']) \<noteq> ''function''"
    by (simp add: last_argument_def)
  have throws: "completes (throwing_operation example_collection [JStr ''not an array''])
        = Throws example_error
      \<or> completes (throwing_operation example_collection [JStr ''not an array''])
        = ReturnsPromise (Rejected example_error)"
    by (simp add: throwing_operation_def)
  show ?thesis
    by (rule promise_style_throw_ends_span_once
          [where origApi = throwing_operation and this = example_collection, OF style throws])
qed

text \<open>
  Claim C4. An end notification whose \<open>requestId\<close> has no entry in the table changes
  nothing: \<open>onEnd\<close> returns the state it was given, so the table and its size, the
  spans and the log are the same, no span is ended, and there is no error (the handler
  has no path that raises).
\<close>

theorem unmatched_end_is_noop:
  assumes "activeSpans w (requestId event) = None"
  shows "onEnd event w = w"
  using assms by (simp add: onEnd_def)

theorem unmatched_end_is_noop_witness:
  "activeSpans initial_world (requestId example_finished) = None
   \<and> onEnd example_finished initial_world = initial_world"
proof -
  have absent: "activeSpans initial_world (requestId example_finished) = None"
    by (simp add: initial_world_def)
  show ?thesis using absent unmatched_end_is_noop [OF absent] by simp
qed

text \<open>
  Claim C5, as stated, fails for the interception strategy: the wrapper is an async
  function, so what it returns is a promise, also when the original operation returns a
  value that is no promise or throws. Here the operation returns \<open>undefined\<close> and the
  wrapper, refused a span, returns a promise fulfilled with \<open>undefined\<close>.
\<close>

theorem refused_span_result_counterexample:
  "fst (wrappedCollectionApi example_URL callback_operation ''insertOne'' None
          example_collection [JObj 10 [(''name'', JStr ''kitty'')], JFun 11] initial_world)
   \<noteq> fst (apply_fn callback_operation
          example_collection [JObj 10 [(''name'', JStr ''kitty'')], JFun 11] initial_world)"
  by (simp add: wrappedCollectionApi_def createSpan_def apply_fn_def callback_operation_def
      Let_def split: prod.splits)

text \<open>
  Claim C5, amended. When \<open>createSpan\<close> refuses: \<open>onStart\<close> returns the state it was
  given (nothing is stored in the table, nothing else is done); and
  \<open>wrappedCollectionApi\<close> calls the original operation with the receiver and the
  arguments it was given, does nothing else, and returns a promise that settles with
  the result of that call: fulfilled with a returned value, following a returned
  promise, rejected with a thrown error.
\<close>

theorem refused_span_passes_through:
  "onStart None event w = w
   \<and> wrappedCollectionApi URL origApi apiName None this args w =
       (case apply_fn origApi this args w of (c, w') \<Rightarrow> (ReturnsPromise (settle c), w'))"
  by (simp add: onStart_def wrappedCollectionApi_def createSpan_def Let_def split: prod.splits)

text \<open>
  Claim C6. The span that \<open>onStart\<close> creates is named
  \<open>databaseName.collectionLabel.commandName\<close>, where the label is the value of the
  command document under the command name when that value is a string, and \<open>$cmd\<close>
  otherwise. For the document \<open>{insert: "cats", documents: [...]}\<close> and the command
  \<open>insert\<close> the name is \<open><db>.cats.insert\<close>; for \<open>{ping: 1}\<close> and \<open>ping\<close> it is
  \<open><db>.$cmd.ping\<close>.
\<close>

theorem span_name_composition:
  "sp_name (spans (onStart (Some t) event w) ! length (spans w)) =
     databaseName event @ ''.'' @ collectionFor event @ ''.'' @ commandName event
   \<and> collectionFor event =
       (case map_of (command event) (commandName event) of
          Some (JStr c) \<Rightarrow> c
        | _ \<Rightarrow> ''$cmd'')
   \<and> sp_name (spans (onStart (Some t)
         (event\<lparr>commandName := ''insert'',
                 command := [(''insert'', JStr ''cats''), (''documents'', docs)]\<rparr>) w)
         ! length (spans w)) = databaseName event @ ''.cats.insert''
   \<and> sp_name (spans (onStart (Some t)
         (event\<lparr>commandName := ''ping'', command := [(''ping'', JNum 1)]\<rparr>) w)
         ! length (spans w)) = databaseName event @ ''.$cmd.ping''"
proof -
  have "collectionFor event =
       (case map_of (command event) (commandName event) of
          Some (JStr c) \<Rightarrow> c
        | _ \<Rightarrow> ''$cmd'')"
    by (simp add: collectionFor_def split: option.splits jsval.splits)
  then show ?thesis
    by (simp add: spans_onStart started_span_def collectionFor_def)
qed

text \<open>
  Claim C7. The pattern resolves a token exactly when the token is a non-empty host
  without line terminator, a colon, and a non-empty run of digits up to the end, and
  then the host is all that stands before that last colon and the port the digits after
  it. So \<open>127.0.0.1:27017\<close> resolves to the host \<open>127.0.0.1\<close> and the port
  \<open>27017\<close>, and that is the destination context of the span. For every token that is
  not of that form, such as \<open>not-an-address\<close>, \<open>onStart\<close> goes on without error: the
  span has no destination context, the failure is logged at trace level, and the span
  still gets its db context and its entry in the table.
\<close>

theorem destination_token_resolution:
  "(HOSTNAME_PORT_RE_exec tok = Some (h, p) \<longleftrightarrow>
      tok = h @ CHR '':'' # p \<and> h \<noteq> [] \<and> CHR 0x0A \<notin> set h \<and> CHR 0x0D \<notin> set h
      \<and> p \<noteq> [] \<and> set p \<subseteq> set ''0123456789'')
   \<and> HOSTNAME_PORT_RE_exec ''127.0.0.1:27017'' = Some (''127.0.0.1'', ''27017'')
   \<and> HOSTNAME_PORT_RE_exec ''not-an-address'' = None
   \<and> (let w' = onStart (Some t) event w; r = length (spans w)
      in (js_or (address event) (connectionId event) = JStr (h @ CHR '':'' # p)
            \<and> h \<noteq> [] \<and> CHR 0x0A \<notin> set h \<and> CHR 0x0D \<notin> set h
            \<and> p \<noteq> [] \<and> set p \<subseteq> set ''0123456789'' \<longrightarrow>
            destinationContext (spans w' ! r) = Some \<lparr>host = h, port = p\<rparr>
            \<and> logged w' = logged w @ [ConsoleLog event])
       \<and> (js_or (address event) (connectionId event) = JStr ''127.0.0.1:27017'' \<longrightarrow>
            destinationContext (spans w' ! r) = Some \<lparr>host = ''127.0.0.1'', port = ''27017''\<rparr>)
       \<and> (js_or (address event) (connectionId event) = JStr tok
            \<and> \<not> (\<exists>h' p'. tok = h' @ CHR '':'' # p' \<and> h' \<noteq> []
                    \<and> CHR 0x0A \<notin> set h' \<and> CHR 0x0D \<notin> set h'
                    \<and> p' \<noteq> [] \<and> set p' \<subseteq> set ''0123456789'') \<longrightarrow>
            destinationContext (spans w' ! r) = None
            \<and> dbContext (spans w' ! r)
                = Some \<lparr>ctx_type = ''mongodb'', ctx_instance = databaseName event\<rparr>
            \<and> ends (spans w' ! r) = []
            \<and> activeSpans w' (requestId event) = Some r
            \<and> logged w' = logged w @
                [ConsoleLog event,
                 Trace ''could not set destination context on mongodb span from address=%j''
                   [JStr tok]])
       \<and> (js_or (address event) (connectionId event) = JStr ''not-an-address'' \<longrightarrow>
            destinationContext (spans w' ! r) = None
            \<and> logged w' = logged w @
                [ConsoleLog event,
                 Trace ''could not set destination context on mongodb span from address=%j''
                   [JStr ''not-an-address'']]))"
proof -
  have iff: "HOSTNAME_PORT_RE_exec s = Some (a, b) \<longleftrightarrow>
      s = a @ CHR '':'' # b \<and> a \<noteq> [] \<and> CHR 0x0A \<notin> set a \<and> CHR 0x0D \<notin> set a
      \<and> b \<noteq> [] \<and> set b \<subseteq> set ''0123456789''" for s a b
    unfolding HOSTNAME_PORT_RE_exec_iff no_line_terminator_iff all_digits_iff by blast
  have a: "HOSTNAME_PORT_RE_exec ''127.0.0.1:27017'' = Some (''127.0.0.1'', ''27017'')"
    by code_simp
  have b: "HOSTNAME_PORT_RE_exec ''not-an-address'' = None"
    by code_simp
  have none: "HOSTNAME_PORT_RE_exec s = None"
    if "\<not> (\<exists>h' p'. s = h' @ CHR '':'' # p' \<and> h' \<noteq> []
                    \<and> CHR 0x0A \<notin> set h' \<and> CHR 0x0D \<notin> set h'
                    \<and> p' \<noteq> [] \<and> set p' \<subseteq> set ''0123456789'')" for s
  proof (cases "HOSTNAME_PORT_RE_exec s")
    case None
    then show ?thesis .
  next
    case (Some hp)
    obtain a b where "hp = (a, b)" by (cases hp)
    with Some have "HOSTNAME_PORT_RE_exec s = Some (a, b)" by simp
    then have "s = a @ CHR '':'' # b \<and> a \<noteq> [] \<and> CHR 0x0A \<notin> set a \<and> CHR 0x0D \<notin> set a
      \<and> b \<noteq> [] \<and> set b \<subseteq> set ''0123456789''" using iff [of s a b] by blast
    with that show ?thesis by blast
  qed
  have yes: "destinationContext (started_span t event) = Some \<lparr>host = a, port = b\<rparr>"
    if "js_or (address event) (connectionId event) = JStr s" "HOSTNAME_PORT_RE_exec s = Some (a, b)"
    for s a b
  proof -
    from that(2) have "s = a @ CHR '':'' # b" using iff [of s a b] by blast
    then have "s \<noteq> []" by simp
    with that show ?thesis by (simp add: started_span_def getDBDestination_def)
  qed
  have no: "destinationContext (started_span t event) = None"
    if "js_or (address event) (connectionId event) = JStr s" "HOSTNAME_PORT_RE_exec s = None" for s
    using that by (simp add: started_span_def)
  have m: "HOSTNAME_PORT_RE_exec (h @ CHR '':'' # p) = Some (h, p)"
    if "h \<noteq> []" "CHR 0x0A \<notin> set h" "CHR 0x0D \<notin> set h" "p \<noteq> []" "set p \<subseteq> set ''0123456789''"
    using that iff [of "h @ CHR '':'' # p" h p] by blast
  have part1: "js_or (address event) (connectionId event) = JStr (h @ CHR '':'' # p)
            \<and> h \<noteq> [] \<and> CHR 0x0A \<notin> set h \<and> CHR 0x0D \<notin> set h
            \<and> p \<noteq> [] \<and> set p \<subseteq> set ''0123456789'' \<longrightarrow>
            destinationContext (spans (onStart (Some t) event w) ! length (spans w))
              = Some \<lparr>host = h, port = p\<rparr>
            \<and> logged (onStart (Some t) event w) = logged w @ [ConsoleLog event]"
    using yes m by (auto simp: spans_onStart logged_onStart simp del: set_simps)
  have part2: "js_or (address event) (connectionId event) = JStr ''127.0.0.1:27017'' \<longrightarrow>
            destinationContext (spans (onStart (Some t) event w) ! length (spans w))
              = Some \<lparr>host = ''127.0.0.1'', port = ''27017''\<rparr>"
    using yes a by (auto simp: spans_onStart)
  have part3: "js_or (address event) (connectionId event) = JStr s \<and> HOSTNAME_PORT_RE_exec s = None \<longrightarrow>
            destinationContext (spans (onStart (Some t) event w) ! length (spans w)) = None
            \<and> dbContext (spans (onStart (Some t) event w) ! length (spans w))
                = Some \<lparr>ctx_type = ''mongodb'', ctx_instance = databaseName event\<rparr>
            \<and> ends (spans (onStart (Some t) event w) ! length (spans w)) = []
            \<and> activeSpans (onStart (Some t) event w) (requestId event) = Some (length (spans w))
            \<and> logged (onStart (Some t) event w) = logged w @
                [ConsoleLog event,
                 Trace ''could not set destination context on mongodb span from address=%j''
                   [JStr s]]" for s
    using no [of s]
    by (auto simp: spans_onStart activeSpans_onStart logged_onStart)
       (simp_all add: started_span_def)
  show ?thesis
    unfolding Let_def
    using iff [of tok h p] a b part1 part2 part3 [of tok] part3 [of "''not-an-address''"] none [of tok]
    by blast
qed

theorem destination_token_resolution_witness:
  "js_or (address example_other) (connectionId example_other) = JStr ''not-an-address''
   \<and> CHR '':'' \<notin> set ''not-an-address''
   \<and> destinationContext (spans (onStart (Some 7000000) example_other initial_world) ! 0) = None
   \<and> dbContext (spans (onStart (Some 7000000) example_other initial_world) ! 0)
        = Some \<lparr>ctx_type = ''mongodb'', ctx_instance = ''admin''\<rparr>
   \<and> activeSpans (onStart (Some 7000000) example_other initial_world) (JNum 2) = Some 0
   \<and> logged (onStart (Some 7000000) example_other initial_world) =
        [ConsoleLog example_other,
         Trace ''could not set destination context on mongodb span from address=%j''
           [JStr ''not-an-address'']]
   \<and> js_or (address example_started) (connectionId example_started)
        = JStr (''127.0.0.1'' @ CHR '':'' # ''27017'')
   \<and> destinationContext (spans (onStart (Some 5000000) example_started initial_world) ! 0)
        = Some \<lparr>host = ''127.0.0.1'', port = ''27017''\<rparr>
   \<and> logged (onStart (Some 5000000) example_started initial_world) = [ConsoleLog example_started]"
proof -
  have tok: "js_or (address example_other) (connectionId example_other) = JStr ''not-an-address''"
    by (simp add: example_other_def js_or_def)
  have colon: "CHR '':'' \<notin> set ''not-an-address''" by simp
  have nomatch: "\<not> (\<exists>h' p'. ''not-an-address'' = h' @ CHR '':'' # p' \<and> h' \<noteq> []
                    \<and> CHR 0x0A \<notin> set h' \<and> CHR 0x0D \<notin> set h'
                    \<and> p' \<noteq> [] \<and> set p' \<subseteq> set ''0123456789'')"
  proof
    assume "\<exists>h' p'. ''not-an-address'' = h' @ CHR '':'' # p' \<and> h' \<noteq> []
                    \<and> CHR 0x0A \<notin> set h' \<and> CHR 0x0D \<notin> set h'
                    \<and> p' \<noteq> [] \<and> set p' \<subseteq> set ''0123456789''"
    then obtain h' p' where "''not-an-address'' = h' @ CHR '':'' # p'" by blast
    then have "set ''not-an-address'' = set (h' @ CHR '':'' # p')" by (rule arg_cong)
    then have "CHR '':'' \<in> set ''not-an-address''" by (simp only: set_append set_simps) blast
    with colon show False by contradiction
  qed
  have addr: "js_or (address example_started) (connectionId example_started)
      = JStr (''127.0.0.1'' @ CHR '':'' # ''27017'')"
    by (simp add: example_started_def js_or_def)
  have match: "''127.0.0.1'' \<noteq> []" "CHR 0x0A \<notin> set ''127.0.0.1''" "CHR 0x0D \<notin> set ''127.0.0.1''"
    "''27017'' \<noteq> []" "set ''27017'' \<subseteq> set ''0123456789''"
    by simp_all
  have init: "length (spans initial_world) = 0" "logged initial_world = []"
    by (simp_all add: initial_world_def)
  have ids: "requestId example_other = JNum 2" "databaseName example_other = ''admin''"
    by (simp_all add: example_other_def)
  from destination_token_resolution
         [of "''not-an-address''" "''127.0.0.1''" "''27017''" 7000000 example_other initial_world]
  have first: "destinationContext (spans (onStart (Some 7000000) example_other initial_world) ! 0) = None
      \<and> dbContext (spans (onStart (Some 7000000) example_other initial_world) ! 0)
          = Some \<lparr>ctx_type = ''mongodb'', ctx_instance = ''admin''\<rparr>
      \<and> activeSpans (onStart (Some 7000000) example_other initial_world) (JNum 2) = Some 0
      \<and> logged (onStart (Some 7000000) example_other initial_world) =
          [ConsoleLog example_other,
           Trace ''could not set destination context on mongodb span from address=%j''
             [JStr ''not-an-address'']]"
    using tok nomatch by (simp only: Let_def init ids append_Nil) blast
  from destination_token_resolution
         [of "''not-an-address''" "''127.0.0.1''" "''27017''" 5000000 example_started initial_world]
  have second: "destinationContext (spans (onStart (Some 5000000) example_started initial_world) ! 0)
        = Some \<lparr>host = ''127.0.0.1'', port = ''27017''\<rparr>
      \<and> logged (onStart (Some 5000000) example_started initial_world) = [ConsoleLog example_started]"
    using addr match by (simp only: Let_def init append_Nil) blast
  from tok colon first addr second show ?thesis by blast
qed

text \<open>
  Claim C8, as stated, fails when instrumentation is disabled: the entry point returns at
  line 51, before the version check, and emits no diagnostic, whatever the version.
  Version \<open>2.9.0\<close> is outside the range, and nothing is logged.
\<close>

theorem unsupported_version_counterexample:
  "\<not> semver_satisfies ''2.9.0'' ''>=3.3 <6.0''
   \<and> logged (snd (module_exports semver_satisfies example_mongodb initial_world ''2.9.0'' False))
       = []"
proof -
  have "\<not> semver_satisfies ''2.9.0'' ''>=3.3 <6.0''" by code_simp
  then show ?thesis by (simp add: module_exports_def initial_world_def)
qed

text \<open>
  Claim C8, amended. For every version outside the range \<open>>=3.3 <6.0\<close> the entry
  point returns the driver module it was given, unmodified (no listener is registered,
  no method is wrapped), and the agent's state is unchanged but for the log: when
  instrumentation is enabled, one debug message naming the version is added; when it is
  disabled, nothing is.
\<close>

theorem unsupported_version_not_instrumented:
  assumes "\<not> satisfies version ''>=3.3 <6.0''"
  shows "module_exports satisfies mongodb agent version enabled =
     (mongodb,
      if enabled
      then agent\<lparr>logged := logged agent @
             [Debug ''mongodb version %s not instrumented (mongodb <3.3 is instrumented via mongodb-core)''
                [JStr version]]\<rparr>
      else agent)"
  using assms by (simp add: module_exports_def logger_debug_def)

theorem unsupported_version_not_instrumented_witness:
  "\<not> semver_satisfies ''2.9.0'' ''>=3.3 <6.0''
   \<and> module_exports semver_satisfies example_mongodb initial_world ''2.9.0'' True =
       (example_mongodb,
        initial_world\<lparr>logged :=
          [Debug ''mongodb version %s not instrumented (mongodb <3.3 is instrumented via mongodb-core)''
             [JStr ''2.9.0'']]\<rparr>)"
proof -
  have out: "\<not> semver_satisfies ''2.9.0'' ''>=3.3 <6.0''" by code_simp
  have "logged initial_world = []" by (simp add: initial_world_def)
  then show ?thesis
    using out unsupported_version_not_instrumented
                [where satisfies = semver_satisfies and version = "''2.9.0''" and enabled = True
                   and mongodb = example_mongodb and agent = initial_world, OF out]
    by simp
qed

text \<open>
  Claim C9. After installation on a driver that has \<open>instrument\<close>, the handlers of
  \<open>succeeded\<close> and of \<open>failed\<close> are the same, the one handler \<open>onEnd\<close>; a succeeded
  and a failed notification of the same event are handled alike; and \<open>onEnd\<close> gives
  the same state whatever the outcome field of the event is.
\<close>

theorem end_handling_ignores_outcome:
  assumes "satisfies version ''>=3.3 <6.0''"
    and "truthy (instrument m)"
    and "listeners m = \<lparr>started = [], succeeded = [], failed = []\<rparr>"
  shows "let l = listeners (fst (module_exports satisfies m agent version True))
         in succeeded l = [OnEnd] \<and> failed l = [OnEnd]
            \<and> emit l (CommandSucceeded e) w = onEnd e w
            \<and> emit l (CommandFailed e) w = onEnd e w
            \<and> emit l (CommandFailed (e\<lparr>outcome := x\<rparr>)) w = emit l (CommandSucceeded e) w
            \<and> onEnd (e\<lparr>outcome := x\<rparr>) w = onEnd e w"
proof -
  have "onEnd (e\<lparr>outcome := x\<rparr>) w = onEnd e w"
    by (cases "activeSpans w (requestId e)") (simp_all add: onEnd_def)
  then show ?thesis
    by (simp add: module_exports_event_strategy
          [where satisfies = satisfies and version = version, OF assms] emit.simps)
qed

theorem end_handling_ignores_outcome_witness:
  "let l = listeners (fst (module_exports semver_satisfies example_mongodb initial_world ''3.6.3'' True))
   in succeeded l = [OnEnd] \<and> failed l = [OnEnd]
      \<and> emit l (CommandSucceeded example_finished) (onStart (Some 5000000) example_started initial_world)
          = onEnd example_finished (onStart (Some 5000000) example_started initial_world)
      \<and> emit l (CommandFailed example_finished) (onStart (Some 5000000) example_started initial_world)
          = onEnd example_finished (onStart (Some 5000000) example_started initial_world)
      \<and> emit l (CommandFailed (example_finished\<lparr>outcome := JObj 12 [(''code'', JNum 11000)]\<rparr>))
            (onStart (Some 5000000) example_started initial_world)
          = emit l (CommandSucceeded example_finished)
              (onStart (Some 5000000) example_started initial_world)
      \<and> onEnd (example_finished\<lparr>outcome := JObj 12 [(''code'', JNum 11000)]\<rparr>)
            (onStart (Some 5000000) example_started initial_world)
          = onEnd example_finished (onStart (Some 5000000) example_started initial_world)"
proof -
  have range: "semver_satisfies ''3.6.3'' ''>=3.3 <6.0''" by code_simp
  have instr: "truthy (instrument example_mongodb)" by (simp add: example_mongodb_def)
  have fresh: "listeners example_mongodb = \<lparr>started = [], succeeded = [], failed = []\<rparr>"
    by (simp add: example_mongodb_def)
  show ?thesis
    by (rule end_handling_ignores_outcome
          [where satisfies = semver_satisfies and version = "''3.6.3''", OF range instr fresh])
qed

text \<open>
  Claim C10. When the \<open>enabled\<close> flag is false the entry point returns the driver
  module it was given and leaves the agent's state as it was, for every version and
  every answer of the version check: no listener is registered, no method is wrapped,
  nothing is logged.
\<close>

theorem disabled_returns_module_unmodified:
  "module_exports satisfies mongodb agent version False = (mongodb, agent)"
  by (simp add: module_exports_def)

end
